theory Spec2Isabelle
  imports Complex_Main "HOL-Library.Char_ord" "HOL-Library.List_Lexorder" "HOL-Library.Product_Lexorder"
begin

section \<open>Values and strings\<close>

text \<open>
  Python strings are modelled as \<open>string\<close>, the bytes of their UTF-8 encoding. Equality,
  concatenation, the substring test and the order of two strings (Python compares code
  points) are the same on the encoding. The month and purpose literals are the bytes the
  source file holds.

  A table cell that the source reads with \<open>str(...)\<close>, \<open>isna()\<close> or \<open>== ''\<close> is a
  string, Python's \<open>None\<close> or a NaN.

  The functions keep the names of the source; the methods \<open>_add_smart_month_defaults\<close> and
  \<open>_check_existing_entries\<close> are written without the leading underscore.
\<close>

datatype cell = PyNone | NaN | Str string

fun isna :: "cell \<Rightarrow> bool" where
  "isna PyNone = True"
| "isna NaN = True"
| "isna (Str s) = False"

fun py_str :: "cell \<Rightarrow> string" where
  "py_str PyNone = ''None''"
| "py_str NaN = ''nan''"
| "py_str (Str s) = s"

fun fillna :: "string \<Rightarrow> cell \<Rightarrow> cell" where
  "fillna v PyNone = Str v"
| "fillna v NaN = Str v"
| "fillna v (Str s) = Str s"

text \<open>
  \<open>str.strip()\<close> removes the whitespace characters of Python at both ends: U+0009 to
  U+000D, U+001C to U+001F, U+0020, U+0085, U+00A0, U+1680, U+2000 to U+200A, U+2028,
  U+2029, U+202F, U+205F and U+3000. In UTF-8 the first ten are one byte, U+0085 and
  U+00A0 two bytes, the others three bytes; a character of the string ends where such a
  sequence ends, so the characters are removed sequence by sequence.
\<close>

definition is_space :: "char \<Rightarrow> bool" where
  "is_space c \<longleftrightarrow> c \<in> set [CHR 0x09, CHR 0x0A, CHR 0x0B, CHR 0x0C, CHR 0x0D,
                           CHR 0x1C, CHR 0x1D, CHR 0x1E, CHR 0x1F, CHR 0x20]"

definition is_space2 :: "char \<Rightarrow> char \<Rightarrow> bool" where
  "is_space2 a b \<longleftrightarrow> a = CHR 0xC2 \<and> (b = CHR 0x85 \<or> b = CHR 0xA0)"

definition is_space3 :: "char \<Rightarrow> char \<Rightarrow> char \<Rightarrow> bool" where
  "is_space3 a b c \<longleftrightarrow>
     (a = CHR 0xE1 \<and> b = CHR 0x9A \<and> c = CHR 0x80) \<or>
     (a = CHR 0xE2 \<and> b = CHR 0x80 \<and>
        (CHR 0x80 \<le> c \<and> c \<le> CHR 0x8A \<or> c = CHR 0xA8 \<or> c = CHR 0xA9 \<or> c = CHR 0xAF)) \<or>
     (a = CHR 0xE2 \<and> b = CHR 0x81 \<and> c = CHR 0x9F) \<or>
     (a = CHR 0xE3 \<and> b = CHR 0x80 \<and> c = CHR 0x80)"

fun drop_spaces ::
  "(char \<Rightarrow> bool) \<Rightarrow> (char \<Rightarrow> char \<Rightarrow> bool) \<Rightarrow> (char \<Rightarrow> char \<Rightarrow> char \<Rightarrow> bool)
     \<Rightarrow> string \<Rightarrow> string" where
  "drop_spaces p1 p2 p3 (a # b # c # s) =
     (if p1 a then drop_spaces p1 p2 p3 (b # c # s)
      else if p2 a b then drop_spaces p1 p2 p3 (c # s)
      else if p3 a b c then drop_spaces p1 p2 p3 s
      else a # b # c # s)"
| "drop_spaces p1 p2 p3 [a, b] =
     (if p1 a then drop_spaces p1 p2 p3 [b]
      else if p2 a b then []
      else [a, b])"
| "drop_spaces p1 p2 p3 [a] = (if p1 a then [] else [a])"
| "drop_spaces p1 p2 p3 [] = []"

definition lstrip :: "string \<Rightarrow> string" where
  "lstrip s = drop_spaces is_space is_space2 is_space3 s"

definition rstrip :: "string \<Rightarrow> string" where
  "rstrip s =
     rev (drop_spaces is_space (\<lambda>b a. is_space2 a b) (\<lambda>c b a. is_space3 a b c) (rev s))"

definition strip :: "string \<Rightarrow> string" where
  "strip s = rstrip (lstrip s)"

text \<open>The test \<open>a in b\<close> on strings: \<open>a\<close> occurs in \<open>b\<close> as a contiguous block.\<close>

fun is_prefix :: "string \<Rightarrow> string \<Rightarrow> bool" where
  "is_prefix [] ys = True"
| "is_prefix (x # xs) [] = False"
| "is_prefix (x # xs) (y # ys) = (x = y \<and> is_prefix xs ys)"

fun contains :: "string \<Rightarrow> string \<Rightarrow> bool" where
  "contains [] a = (a = [])"
| "contains (y # ys) a = (is_prefix a (y # ys) \<or> contains ys a)"

text \<open>Decimal rendering of a natural number (\<open>str(n)\<close>) and the format \<open>02d\<close>.\<close>

definition digit_char :: "nat \<Rightarrow> char" where
  "digit_char n = char_of (48 + n)"

fun show_nat :: "nat \<Rightarrow> string" where
  "show_nat n = (if n < 10 then [digit_char n] else show_nat (n div 10) @ [digit_char (n mod 10)])"

declare show_nat.simps [simp del]

definition fmt_02d :: "nat \<Rightarrow> string" where
  "fmt_02d n = (if n < 10 then CHR ''0'' # show_nat n else show_nat n)"

section \<open>Dates, candidate transactions and tables\<close>

text \<open>
  A parsed date (a pandas timestamp) with the three fields the source reads. A missing
  date (\<open>NaT\<close>) is \<open>None\<close>.
\<close>

record timestamp =
  year :: nat
  month :: nat
  day :: nat

definition strftime_Ymd :: "timestamp \<Rightarrow> string" where
  "strftime_Ymd d = show_nat (year d) @ ''-'' @ fmt_02d (month d) @ ''-'' @ fmt_02d (day d)"

definition strftime_m :: "timestamp \<Rightarrow> string" where
  "strftime_m d = fmt_02d (month d)"

text \<open>
  One row of the processed table that \<open>parse_csv_file\<close> builds and the operator edits.
  A table is the list of its rows in order, each with its index label; the labels of a
  table are distinct, as they are in a table read from a file.
\<close>

record row =
  Datum :: "timestamp option"
  Details :: cell
  Amount :: "rat option"
  Zahlungszweck :: cell
  Mitglied :: cell
  Monat :: cell
  Bemerkungen :: cell
  ZKB_Referenz :: cell

type_synonym dataframe = "(nat \<times> row) list"

text \<open>The literals of the source: \<open>Maerz\<close> and \<open>Einfuehrungskurs\<close> hold the source's bytes.\<close>

definition Maerz :: string where
  "Maerz = ''M'' @ [CHR 0xE2, CHR 0x88, CHR 0x9A, CHR 0xC2, CHR 0xA7] @ ''rz''"

definition Einfuehrungskurs :: string where
  "Einfuehrungskurs = ''Einf'' @ [CHR 0xE2, CHR 0x88, CHR 0x9A, CHR 0xC2, CHR 0xBA] @ ''hrungskurs''"

definition month_names :: "nat \<rightharpoonup> string" where
  "month_names = map_of
     [(1, ''Januar''), (2, ''Februar''), (3, Maerz), (4, ''April''),
      (5, ''Mai''), (6, ''Juni''), (7, ''Juli''), (8, ''August''),
      (9, ''September''), (10, ''Oktober''), (11, ''November''), (12, ''Dezember'')]"

definition month_to_num :: "string \<rightharpoonup> string" where
  "month_to_num = map_of
     [(''Januar'', ''01''), (''Februar'', ''02''), (Maerz, ''03''), (''April'', ''04''),
      (''Mai'', ''05''), (''Juni'', ''06''), (''Juli'', ''07''), (''August'', ''08''),
      (''September'', ''09''), (''Oktober'', ''10''), (''November'', ''11''), (''Dezember'', ''12'')]"

section \<open>Assigner: month defaults\<close>

text \<open>
  The body of the loop of \<open>_add_smart_month_defaults\<close> for one row. \<open>None\<close> is the
  \<open>KeyError\<close> of \<open>month_names[payment_date.month]\<close>.
\<close>

definition smart_month_default :: "row \<Rightarrow> row option" where
  "smart_month_default r =
     (case Datum r of
        None \<Rightarrow> Some r
      | Some payment_date \<Rightarrow>
          if day payment_date \<le> 7 then Some (r\<lparr>Monat := Str ''''\<rparr>)
          else (case month_names (month payment_date) of
                  None \<Rightarrow> None
                | Some month_name \<Rightarrow> Some (r\<lparr>Monat := Str month_name\<rparr>)))"

fun add_smart_month_defaults :: "dataframe \<Rightarrow> dataframe option" where
  "add_smart_month_defaults [] = Some []"
| "add_smart_month_defaults ((idx, r) # rest) =
     (case smart_month_default r of
        None \<Rightarrow> None
      | Some r' \<Rightarrow> map_option ((#) (idx, r')) (add_smart_month_defaults rest))"

section \<open>Mapping store and member defaults\<close>

text \<open>
  The mapping store is the JSON object of \<open>categories.json\<close>: its keys are distinct and
  it is scanned in insertion order, so it is an association list. Reading and writing
  the file are assumed to succeed.
\<close>

type_synonym mappings = "(string \<times> string) list"

text \<open>
  \<open>str.lower()\<close> is a library function, with Unicode's case tables: it is the parameter
  \<open>lower\<close> of the functions that call it.
\<close>

fun first_match :: "(string \<Rightarrow> string) \<Rightarrow> mappings \<Rightarrow> string \<Rightarrow> string option" where
  "first_match lower [] dtls = None"
| "first_match lower ((details_key, member_name) # rest) dtls =
     (if contains dtls (lower details_key) then Some member_name
      else first_match lower rest dtls)"

text \<open>The test \<open>current_member and current_member != ''\<close>; a NaN is truthy in Python.\<close>

fun already_assigned :: "cell \<Rightarrow> bool" where
  "already_assigned PyNone = False"
| "already_assigned NaN = True"
| "already_assigned (Str s) = (s \<noteq> [])"

definition auto_assign_row :: "(string \<Rightarrow> string) \<Rightarrow> mappings \<Rightarrow> row \<Rightarrow> row" where
  "auto_assign_row lower ms r =
     (if already_assigned (Mitglied r) then r
      else (case first_match lower ms (strip (lower (py_str (Details r)))) of
              None \<Rightarrow> r
            | Some member_name \<Rightarrow> r\<lparr>Mitglied := Str member_name\<rparr>))"

definition auto_assign_members :: "(string \<Rightarrow> string) \<Rightarrow> mappings \<Rightarrow> dataframe \<Rightarrow> dataframe" where
  "auto_assign_members lower ms df = map (\<lambda>(idx, r). (idx, auto_assign_row lower ms r)) df"

text \<open>\<open>add_member_mapping\<close> returns its flag and the store as saved.\<close>

definition add_member_mapping :: "mappings \<Rightarrow> string \<Rightarrow> string \<Rightarrow> bool \<times> mappings" where
  "add_member_mapping ms dtls member_name =
     (let details_key = strip dtls
      in if details_key \<noteq> [] \<and> details_key \<notin> set (map fst ms)
         then (True, ms @ [(details_key, member_name)])
         else (False, ms))"

section \<open>StatementParser\<close>

text \<open>
  A row of the bank's export as \<open>read_csv\<close> delivers it: an empty field is a NaN. The
  five columns the source reads are present.
\<close>

record csv_row =
  csv_Datum :: cell
  csv_Details :: cell
  csv_Gutschrift_CHF :: cell
  csv_Zahlungszweck :: cell
  csv_ZKB_Referenz :: cell

text \<open>
  \<open>pd.to_numeric\<close> and \<open>pd.to_datetime\<close> with \<open>errors='coerce'\<close> are library
  functions: they are parameters of the parser, as \<open>str.lower\<close> is, a failure to parse
  being \<open>None\<close> (the NaN or NaT of the library). A missing cell converts to a missing
  value. An amount is an exact rational or, as \<open>None\<close>, a NaN; the infinite values of a
  float are not represented.
\<close>

fun coerce :: "(string \<Rightarrow> 'a option) \<Rightarrow> cell \<Rightarrow> 'a option" where
  "coerce f (Str s) = f s"
| "coerce f PyNone = None"
| "coerce f NaN = None"

definition is_credit :: "csv_row \<Rightarrow> bool" where
  "is_credit r \<longleftrightarrow> \<not> isna (csv_Gutschrift_CHF r) \<and> csv_Gutschrift_CHF r \<noteq> Str []"

definition processed_row ::
  "(string \<Rightarrow> rat option) \<Rightarrow> (string \<Rightarrow> timestamp option) \<Rightarrow> csv_row \<Rightarrow> row" where
  "processed_row to_numeric to_datetime r =
     \<lparr>Datum = coerce to_datetime (csv_Datum r),
      Details = fillna [] (csv_Details r),
      Amount = coerce to_numeric (csv_Gutschrift_CHF r),
      Zahlungszweck = Str ''Mitgliederbeitrag'',
      Mitglied = Str [],
      Monat = Str [],
      Bemerkungen = fillna [] (csv_Zahlungszweck r),
      ZKB_Referenz = fillna [] (csv_ZKB_Referenz r)\<rparr>"

definition valid_amount :: "row \<Rightarrow> bool" where
  "valid_amount r = (case Amount r of None \<Rightarrow> False | Some a \<Rightarrow> 0 < a)"

text \<open>
  \<open>parse_csv_file\<close>: \<open>None\<close> is the source's \<open>return None\<close>, after the warning that
  there is no credit row and in the handler of an exception.
\<close>

definition parse_csv_file ::
  "(string \<Rightarrow> rat option) \<Rightarrow> (string \<Rightarrow> timestamp option) \<Rightarrow> (string \<Rightarrow> string) \<Rightarrow> mappings
     \<Rightarrow> (nat \<times> csv_row) list \<Rightarrow> dataframe option" where
  "parse_csv_file to_numeric to_datetime lower ms df =
     (let credit_df = filter (\<lambda>(idx, r). is_credit r) df
      in if credit_df = [] then None
         else let processed_df =
                    map (\<lambda>(idx, r). (idx, processed_row to_numeric to_datetime r)) credit_df;
                  processed_df' = filter (\<lambda>(idx, r). valid_amount r) processed_df
              in map_option (auto_assign_members lower ms)
                   (add_smart_month_defaults processed_df'))"

section \<open>Ledger\<close>

text \<open>
  The member database is the JSON object \<open>members\<close>: member id to member data, in
  insertion order, with distinct ids. A member without the key \<open>contributions\<close>, which
  every reader takes for the empty dictionary and the writer initialises to it, has the
  empty map here. The contact fields are not read by the functions below.
\<close>

record entry =
  amount :: "rat option"
  date :: string
  transaction_id :: string
  source :: string
  purpose :: string
  details :: string
  month_name :: string
  zkb_reference :: string

record member =
  name :: string
  mitgliedsform :: "string option"
  einfuehrungskurs :: "bool option"
  contributions :: "string \<rightharpoonup> (string \<rightharpoonup> entry)"

type_synonym member_db = "(string \<times> member) list"

text \<open>The loop that finds the id of the first member with the given name.\<close>

fun find_member_id :: "member_db \<Rightarrow> string \<Rightarrow> string option" where
  "find_member_id [] n = None"
| "find_member_id ((mid, member_data) # rest) n =
     (if name member_data = n then Some mid else find_member_id rest n)"

text \<open>\<open>d.get(k, {})\<close> on a dictionary of dictionaries.\<close>

definition get_or_empty :: "('k \<rightharpoonup> ('j \<rightharpoonup> 'v)) \<Rightarrow> 'k \<Rightarrow> ('j \<rightharpoonup> 'v)" where
  "get_or_empty m k = (case m k of None \<Rightarrow> Map.empty | Some c \<Rightarrow> c)"

text \<open>An assignment to a field of \<open>member_db["members"][member_id]\<close>.\<close>

definition upd_member :: "string \<Rightarrow> (member \<Rightarrow> member) \<Rightarrow> member_db \<Rightarrow> member_db" where
  "upd_member member_id f db = map (\<lambda>(k, m). if k = member_id then (k, f m) else (k, m)) db"

section \<open>Reconciler: validation\<close>

text \<open>
  The body of the loop of \<open>_check_existing_entries\<close> for one row: the conflict message
  appended, if any.
\<close>

definition existing_conflict :: "member_db \<Rightarrow> row \<Rightarrow> string option" where
  "existing_conflict db r =
     (let member_name = strip (py_str (Mitglied r));
          mname = strip (py_str (Monat r));
          zweck = strip (py_str (Zahlungszweck r))
      in case find_member_id db member_name of
           None \<Rightarrow> None
         | Some member_id \<Rightarrow>
             (case month_to_num mname of
                None \<Rightarrow> None
              | Some month_num \<Rightarrow>
                  if month_num = [] then None
                  else (case map_of db member_id of
                          None \<Rightarrow> None
                        | Some member_data \<Rightarrow>
                            if get_or_empty (contributions member_data) ''2025'' month_num \<noteq> None
                            then Some (member_name @ '' - '' @ mname @ '' ('' @ zweck @ '')'')
                            else None)))"

fun check_existing_entries :: "member_db \<Rightarrow> dataframe \<Rightarrow> string list" where
  "check_existing_entries db [] = []"
| "check_existing_entries db ((idx, r) # rest) =
     (case existing_conflict db r of
        None \<Rightarrow> check_existing_entries db rest
      | Some c \<Rightarrow> c # check_existing_entries db rest)"

text \<open>
  The result of \<open>validate_import_data\<close>: its flag and its message, the message by its
  kind and the rows, groups or conflicts it lists.
\<close>

datatype message =
    Fehlende_Zahlungszweck "nat list"
  | Fehlende_Mitglied "nat list"
  | Fehlende_Monat "nat list"
  | Mehrfache_Transaktionen "((string \<times> string \<times> string) \<times> nat) list"
  | Existierende_Eintraege "string list"
  | Validierung_erfolgreich

definition missing :: "cell \<Rightarrow> bool" where
  "missing c \<longleftrightarrow> isna c \<or> c = Str []"

text \<open>
  \<open>df.groupby(['Mitglied', 'Monat', 'Zahlungszweck']).size()\<close>: a row with a missing key
  is in no group; the groups come in the order of their keys.
\<close>

definition group_key :: "row \<Rightarrow> (string \<times> string \<times> string) option" where
  "group_key r =
     (case (Mitglied r, Monat r, Zahlungszweck r) of
        (Str a, Str b, Str c) \<Rightarrow> Some (a, b, c)
      | _ \<Rightarrow> None)"

definition groupby_size :: "dataframe \<Rightarrow> ((string \<times> string \<times> string) \<times> nat) list" where
  "groupby_size df =
     (let ks = List.map_filter (\<lambda>(idx, r). group_key r) df
      in map (\<lambda>k. (k, count_list ks k)) (sort (remdups ks)))"

definition validate_import_data :: "member_db \<Rightarrow> dataframe \<Rightarrow> bool \<times> message" where
  "validate_import_data db df =
     (let missing_zweck = filter (\<lambda>(idx, r). missing (Zahlungszweck r)) df;
          missing_member = filter (\<lambda>(idx, r). missing (Mitglied r)) df;
          missing_month = filter (\<lambda>(idx, r). missing (Monat r)) df
      in if missing_zweck \<noteq> [] then (False, Fehlende_Zahlungszweck (map fst missing_zweck))
         else if missing_member \<noteq> [] then (False, Fehlende_Mitglied (map fst missing_member))
         else if missing_month \<noteq> [] then (False, Fehlende_Monat (map fst missing_month))
         else let duplicates = filter (\<lambda>(k, n). 1 < n) (groupby_size df)
              in if duplicates \<noteq> [] then (False, Mehrfache_Transaktionen duplicates)
                 else let existing_conflicts = check_existing_entries db df
                      in if existing_conflicts \<noteq> []
                         then (False, Existierende_Eintraege existing_conflicts)
                         else (True, Validierung_erfolgreich))"

section \<open>Reconciler: commit\<close>

text \<open>
  \<open>df.groupby('Mitglied')\<close>: the groups in the order of their keys, each with its rows
  in table order; a row with a missing member is in no group, and no group is empty.
\<close>

definition member_keys :: "dataframe \<Rightarrow> string list" where
  "member_keys df = List.map_filter (\<lambda>(idx, r). case Mitglied r of Str s \<Rightarrow> Some s | _ \<Rightarrow> None) df"

definition groupby_Mitglied :: "dataframe \<Rightarrow> (string \<times> dataframe) list" where
  "groupby_Mitglied df =
     map (\<lambda>k. (k, filter (\<lambda>(idx, r). Mitglied r = Str k) df)) (sort (remdups (member_keys df)))"

text \<open>
  The body of the inner loop of \<open>transfer_to_member_database\<close>: the record written for
  one row, and the write. \<open>stamp idx\<close> is the rendering of \<open>int(datetime.now().timestamp())\<close>
  read while the row \<open>idx\<close> is processed. \<open>None\<close> is an exception: a missing date has
  no \<open>strftime\<close> (the default of \<open>month_to_num.get\<close> is evaluated for every row). A
  missing amount is a NaN, which \<open>float\<close> returns as it is: the record is written with it.
\<close>

definition month_key :: "string \<Rightarrow> timestamp \<Rightarrow> string" where
  "month_key mname d = (case month_to_num mname of Some n \<Rightarrow> n | None \<Rightarrow> strftime_m d)"

definition contribution_entry :: "(nat \<Rightarrow> string) \<Rightarrow> string \<Rightarrow> nat \<Rightarrow> row \<Rightarrow> timestamp \<Rightarrow> entry" where
  "contribution_entry stamp member_id idx r d =
     (let mname = strip (py_str (Monat r));
          yr = show_nat (year d);
          zweck = strip (py_str (Zahlungszweck r));
          mnum = month_key mname d;
          zkb = strip (py_str (ZKB_Referenz r));
          tid = (if zkb \<noteq> [] then zkb
                 else ''CSV_'' @ member_id @ ''_'' @ yr @ mnum @ ''_'' @ stamp idx)
      in \<lparr>amount = Amount r, date = strftime_Ymd d, transaction_id = tid, source = ''csv_import'',
          purpose = zweck, details = strip (py_str (Details r)), month_name = mname,
          zkb_reference = zkb\<rparr>)"

definition set_contribution :: "string \<Rightarrow> string \<Rightarrow> entry \<Rightarrow> member \<Rightarrow> member" where
  "set_contribution yr mnum e m =
     m\<lparr>contributions := (contributions m)(yr \<mapsto> (get_or_empty (contributions m) yr)(mnum \<mapsto> e))\<rparr>"

definition write_contribution ::
  "(nat \<Rightarrow> string) \<Rightarrow> string \<Rightarrow> nat \<times> row \<Rightarrow> member_db \<Rightarrow> member_db option" where
  "write_contribution stamp member_id ir db =
     (case Datum (snd ir) of
        None \<Rightarrow> None
      | Some d \<Rightarrow>
          Some (upd_member member_id
                  (set_contribution (show_nat (year d))
                     (month_key (strip (py_str (Monat (snd ir)))) d)
                     (contribution_entry stamp member_id (fst ir) (snd ir) d))
                  db))"

fun process_rows :: "(nat \<Rightarrow> string) \<Rightarrow> string \<Rightarrow> dataframe \<Rightarrow> member_db \<Rightarrow> member_db option" where
  "process_rows stamp member_id [] db = Some db"
| "process_rows stamp member_id (ir # rest) db =
     (case write_contribution stamp member_id ir db of
        None \<Rightarrow> None
      | Some db' \<Rightarrow> process_rows stamp member_id rest db')"

text \<open>
  The statements of the outer loop that follow the inner loop: they read \<open>purpose\<close> and
  \<open>row\<close> as the inner loop left them, that is, of the last row of the group.
\<close>

definition after_rows :: "string \<Rightarrow> string \<Rightarrow> dataframe \<Rightarrow> member_db \<times> mappings \<Rightarrow> member_db \<times> mappings" where
  "after_rows member_name member_id grp st =
     (let r = snd (last grp);
          zweck = strip (py_str (Zahlungszweck r));
          db' = (if zweck = Einfuehrungskurs
                 then upd_member member_id (\<lambda>m. m\<lparr>einfuehrungskurs := Some True\<rparr>) (fst st)
                 else fst st)
      in (db', snd (add_member_mapping (snd st) (strip (py_str (Details r))) (strip member_name))))"

text \<open>
  The outer loop over the groups. The result is the database in memory, or \<open>None\<close> after
  an exception, and the mapping store as saved so far: \<open>add_member_mapping\<close> saves the
  store at once, the database is written after the loop only.
\<close>

fun transfer_groups ::
  "(nat \<Rightarrow> string) \<Rightarrow> (string \<times> dataframe) list \<Rightarrow> member_db \<Rightarrow> mappings
     \<Rightarrow> member_db option \<times> mappings" where
  "transfer_groups stamp [] db ms = (Some db, ms)"
| "transfer_groups stamp ((member_name, grp) # rest) db ms =
     (case find_member_id db member_name of
        None \<Rightarrow> transfer_groups stamp rest db ms
      | Some member_id \<Rightarrow>
          (case process_rows stamp member_id grp db of
             None \<Rightarrow> (None, ms)
           | Some db' \<Rightarrow>
               (case after_rows member_name member_id grp (db', ms) of
                  (db'', ms') \<Rightarrow> transfer_groups stamp rest db'' ms')))"

text \<open>
  \<open>transfer_to_member_database\<close>: its flag, the member database and the mapping store as
  they are on file afterwards.
\<close>

definition transfer_to_member_database ::
  "(nat \<Rightarrow> string) \<Rightarrow> member_db \<Rightarrow> mappings \<Rightarrow> dataframe \<Rightarrow> bool \<times> member_db \<times> mappings" where
  "transfer_to_member_database stamp db ms df =
     (case transfer_groups stamp (groupby_Mitglied df) db ms of
        (None, ms') \<Rightarrow> (False, db, ms')
      | (Some db', ms') \<Rightarrow> (True, db', ms'))"

text \<open>
  The transfer button of \<open>run_csv_import_interface\<close>: the table is validated again and
  transferred only if it is valid.
\<close>

definition transfer_button ::
  "(nat \<Rightarrow> string) \<Rightarrow> member_db \<Rightarrow> mappings \<Rightarrow> dataframe \<Rightarrow> bool \<times> member_db \<times> mappings" where
  "transfer_button stamp db ms df =
     (if fst (validate_import_data db df) then transfer_to_member_database stamp db ms df
      else (False, db, ms))"

section \<open>Outstanding payments\<close>

text \<open>
  \<open>calculate_outstanding_payments\<close>; \<open>now\<close> is the reading \<open>datetime.now()\<close> of the
  clock, of which the source takes the month; the year is the constant of the source.
  Amounts are exact rationals.
\<close>

definition current_year :: string where
  "current_year = ''2025''"

definition monthly_amount_of :: "member \<Rightarrow> rat" where
  "monthly_amount_of member_data =
     (let member_form = (case mitgliedsform member_data of None \<Rightarrow> ''Aktiv'' | Some f \<Rightarrow> f)
      in if member_form = ''Aktiv'' then 50
         else if member_form = ''Passiv'' then 25
         else 0)"

fun outstanding_loop ::
  "rat \<Rightarrow> (string \<rightharpoonup> entry) \<Rightarrow> nat list \<Rightarrow> string list \<times> rat \<Rightarrow> string list \<times> rat" where
  "outstanding_loop monthly_amount paid [] acc = acc"
| "outstanding_loop monthly_amount paid (mo # rest) acc =
     (let month_str = fmt_02d mo
      in if paid month_str = None
         then outstanding_loop monthly_amount paid rest (fst acc @ [month_str], snd acc + monthly_amount)
         else outstanding_loop monthly_amount paid rest acc)"

definition calculate_outstanding_payments :: "timestamp \<Rightarrow> member \<Rightarrow> string list \<times> rat" where
  "calculate_outstanding_payments now member_data =
     (let monthly_amount = monthly_amount_of member_data
      in if monthly_amount = 0 then ([], 0)
         else let current_month = month now
              in outstanding_loop monthly_amount
                   (get_or_empty (contributions member_data) current_year)
                   [1..<current_month + 1] ([], 0))"

section \<open>Instances of the library parsers\<close>

text \<open>
  For the closed examples below the library functions are instantiated: plain decimal
  literals (digits, an optional fraction, an optional sign) for the amount,
  \<open>day.month.year\<close> with a four-digit year and a day that exists in the month for the
  date, every other string failing to parse, and for \<open>str.lower\<close> the function that
  lowers the ASCII letters, which is \<open>str.lower\<close> on the ASCII strings of the examples.
\<close>

definition lower_char :: "char \<Rightarrow> char" where
  "lower_char c = (if CHR ''A'' \<le> c \<and> c \<le> CHR ''Z'' then char_of (of_char c + (32::nat)) else c)"

definition ascii_lower :: "string \<Rightarrow> string" where
  "ascii_lower s = map lower_char s"

definition is_digit :: "char \<Rightarrow> bool" where
  "is_digit c \<longleftrightarrow> CHR ''0'' \<le> c \<and> c \<le> CHR ''9''"

definition digits_value :: "string \<Rightarrow> nat" where
  "digits_value s = foldl (\<lambda>a c. 10 * a + (of_char c - 48)) 0 s"

definition all_digits :: "string \<Rightarrow> bool" where
  "all_digits s \<longleftrightarrow> s \<noteq> [] \<and> list_all is_digit s"

definition decimal_unsigned :: "string \<Rightarrow> rat option" where
  "decimal_unsigned s =
     (let ip = takeWhile (\<lambda>c. c \<noteq> CHR ''.'') s;
          rest = dropWhile (\<lambda>c. c \<noteq> CHR ''.'') s
      in if \<not> all_digits ip then None
         else if rest = [] then Some (of_nat (digits_value ip))
         else if all_digits (tl rest)
              then Some (of_nat (digits_value ip) + of_nat (digits_value (tl rest)) / 10 ^ length (tl rest))
              else None)"

definition decimal_to_numeric :: "string \<Rightarrow> rat option" where
  "decimal_to_numeric s =
     (case s of
        [] \<Rightarrow> None
      | c # cs \<Rightarrow> if c = CHR ''-'' then map_option uminus (decimal_unsigned cs)
                  else decimal_unsigned s)"

definition days_in_month :: "nat \<Rightarrow> nat \<Rightarrow> nat" where
  "days_in_month y m =
     (if m = 2 then (if y mod 4 = 0 \<and> (y mod 100 \<noteq> 0 \<or> y mod 400 = 0) then 29 else 28)
      else if m \<in> set [4, 6, 9, 11] then 30 else 31)"

definition dmy_to_datetime :: "string \<Rightarrow> timestamp option" where
  "dmy_to_datetime s =
     (let ds = takeWhile (\<lambda>c. c \<noteq> CHR ''.'') s;
          r1 = dropWhile (\<lambda>c. c \<noteq> CHR ''.'') s;
          ms = takeWhile (\<lambda>c. c \<noteq> CHR ''.'') (tl r1);
          r2 = dropWhile (\<lambda>c. c \<noteq> CHR ''.'') (tl r1);
          ys = tl r2
      in if r1 = [] \<or> r2 = [] then None
         else if \<not> (all_digits ds \<and> all_digits ms \<and> all_digits ys) then None
         else if \<not> (length ds \<le> 2 \<and> length ms \<le> 2 \<and> length ys = 4) then None
         else let d = digits_value ds; m = digits_value ms; y = digits_value ys
              in if 1 \<le> m \<and> m \<le> 12 \<and> 1 \<le> d \<and> d \<le> days_in_month y m
                 then Some \<lparr>year = y, month = m, day = d\<rparr>
                 else None)"

section \<open>Notions used in the statements\<close>

text \<open>
  The two filters of \<open>parse_csv_file\<close> on a row of the export, taken together: the credit
  field is present and not empty, and it converts to an amount above zero.
\<close>

definition retained :: "(string \<Rightarrow> rat option) \<Rightarrow> csv_row \<Rightarrow> bool" where
  "retained to_numeric c \<longleftrightarrow>
     is_credit c \<and> (case coerce to_numeric (csv_Gutschrift_CHF c) of None \<Rightarrow> False | Some a \<Rightarrow> 0 < a)"

text \<open>The cells a row is grouped by in the duplicate check.\<close>

definition row_triple :: "row \<Rightarrow> cell \<times> cell \<times> cell" where
  "row_triple r = (Mitglied r, Monat r, Zahlungszweck r)"

text \<open>
  The read \<open>members[id].get("contributions", {}).get(year, {}).get(month)\<close> of the
  ledger: the contribution record of a member for a year and a month key, if any.
\<close>

definition ledger_entry :: "member_db \<Rightarrow> string \<Rightarrow> string \<Rightarrow> string \<Rightarrow> entry option" where
  "ledger_entry db member_id yr mnum =
     (case map_of db member_id of
        None \<Rightarrow> None
      | Some member_data \<Rightarrow> get_or_empty (contributions member_data) yr mnum)"


text \<open>The twelve month names of the source.\<close>

abbreviation german_month_names :: "string list" where
  "german_month_names \<equiv>
     [''Januar'', ''Februar'', Maerz, ''April'', ''Mai'', ''Juni'', ''Juli'', ''August'',
      ''September'', ''Oktober'', ''November'', ''Dezember'']"

text \<open>The message of a conflict: member, month label and purpose of the row, trimmed.\<close>

definition conflict_message :: "row \<Rightarrow> string" where
  "conflict_message r =
     strip (py_str (Mitglied r)) @ '' - '' @ strip (py_str (Monat r)) @ '' ('' @
     strip (py_str (Zahlungszweck r)) @ '')''"

section \<open>Example data\<close>

text \<open>A candidate transaction with every field present, and a member without records.\<close>

definition candidate :: "timestamp \<Rightarrow> string \<Rightarrow> rat \<Rightarrow> string \<Rightarrow> string \<Rightarrow> string \<Rightarrow> string \<Rightarrow> row" where
  "candidate d dtls a zweck mitgl mon ref =
     \<lparr>Datum = Some d, Details = Str dtls, Amount = Some a, Zahlungszweck = Str zweck,
      Mitglied = Str mitgl, Monat = Str mon, Bemerkungen = Str [], ZKB_Referenz = Str ref\<rparr>"

definition jane :: member where
  "jane = \<lparr>name = ''Jane Doe'', mitgliedsform = Some ''Aktiv'', einfuehrungskurs = Some False,
           contributions = Map.empty\<rparr>"


text \<open>Rows of an export: a valid credit, no credit, an unparseable, a negative and a zero amount; and a row with a valid credit whose date is no date.\<close>

definition csv_example :: "string \<Rightarrow> cell \<Rightarrow> csv_row" where
  "csv_example dat credit =
     \<lparr>csv_Datum = Str dat, csv_Details = Str ''ACME Corp Payment, Jane Doe'',
      csv_Gutschrift_CHF = credit, csv_Zahlungszweck = Str ''Monatsbeitrag'',
      csv_ZKB_Referenz = Str ''SL250829579C9948''\<rparr>"

definition statement_rows :: "(nat \<times> csv_row) list" where
  "statement_rows =
     [(0, csv_example ''10.03.2025'' (Str ''50.00'')),
      (1, csv_example ''11.03.2025'' NaN),
      (2, csv_example ''12.03.2025'' (Str ''abc'')),
      (3, csv_example ''13.03.2025'' (Str ''-5.00'')),
      (4, csv_example ''14.03.2025'' (Str ''0''))]"

definition undated_rows :: "(nat \<times> csv_row) list" where
  "undated_rows = [(0, csv_example ''kein Datum'' (Str ''50.00''))]"

text \<open>A member whose March 2025 is recorded, and rows naming an unknown member and an unknown month label.\<close>

definition jane_paid :: member where
  "jane_paid = jane\<lparr>contributions := [''2025'' \<mapsto> [''03'' \<mapsto>
      \<lparr>amount = Some 50, date = ''2025-03-10'', transaction_id = ''R0'', source = ''csv_import'',
       purpose = ''Mitgliederbeitrag'', details = ''A'', month_name = Maerz, zkb_reference = ''R0''\<rparr>]]\<rparr>"

definition unknown_member_row :: row where
  "unknown_member_row =
     candidate \<lparr>year = 2025, month = 3, day = 10\<rparr> ''A'' 50 ''Mitgliederbeitrag'' ''John Unknown'' Maerz ''R1''"

definition unknown_month_row :: row where
  "unknown_month_row =
     candidate \<lparr>year = 2025, month = 3, day = 10\<rparr> ''B'' 50 ''Mitgliederbeitrag'' ''Jane Doe'' ''March'' ''R2''"

definition skipped_batch :: dataframe where
  "skipped_batch = [(0, unknown_member_row), (1, unknown_month_row)]"

text \<open>The tables the parser returns on the two exports.\<close>

definition statement_out :: dataframe where
  "statement_out =
     [(0, \<lparr>Datum = Some \<lparr>year = 2025, month = 3, day = 10\<rparr>,
           Details = Str ''ACME Corp Payment, Jane Doe'', Amount = Some 50,
           Zahlungszweck = Str ''Mitgliederbeitrag'', Mitglied = Str [], Monat = Str Maerz,
           Bemerkungen = Str ''Monatsbeitrag'', ZKB_Referenz = Str ''SL250829579C9948''\<rparr>)]"

definition undated_out :: dataframe where
  "undated_out =
     [(0, \<lparr>Datum = None,
           Details = Str ''ACME Corp Payment, Jane Doe'', Amount = Some 50,
           Zahlungszweck = Str ''Mitgliederbeitrag'', Mitglied = Str [], Monat = Str [],
           Bemerkungen = Str ''Monatsbeitrag'', ZKB_Referenz = Str ''SL250829579C9948''\<rparr>)]"

text \<open>A clock, and a batch with a missing member in one row, a missing purpose in the next and a duplicated triple after them.\<close>

definition fixed_stamp :: "nat \<Rightarrow> string" where
  "fixed_stamp idx = ''1756400000''"

definition mixed_batch :: dataframe where
  "mixed_batch =
     [(0, candidate \<lparr>year = 2025, month = 3, day = 10\<rparr> ''A'' 50 ''Mitgliederbeitrag'' [] Maerz ''R1''),
      (1, candidate \<lparr>year = 2025, month = 3, day = 11\<rparr> ''B'' 50 [] ''Jane Doe'' Maerz ''R2''),
      (2, candidate \<lparr>year = 2025, month = 3, day = 12\<rparr> ''C'' 50 ''Mitgliederbeitrag'' ''Jane Doe'' Maerz ''R3''),
      (3, candidate \<lparr>year = 2025, month = 3, day = 13\<rparr> ''D'' 50 ''Mitgliederbeitrag'' ''Jane Doe'' Maerz ''R4'')]"


text \<open>A member with a record for March 2024, and a batch dated March 2024 for the same member and month.\<close>

definition old_entry :: entry where
  "old_entry =
     \<lparr>amount = Some 25, date = ''2024-03-01'', transaction_id = ''R0'', source = ''manual'',
      purpose = ''Mitgliederbeitrag'', details = ''A'', month_name = Maerz, zkb_reference = ''R0''\<rparr>"

definition jane_2024 :: member where
  "jane_2024 = jane\<lparr>contributions := [''2024'' \<mapsto> [''03'' \<mapsto> old_entry]]\<rparr>"

definition batch_2024 :: dataframe where
  "batch_2024 =
     [(0, candidate \<lparr>year = 2024, month = 3, day = 10\<rparr> ''A'' 50 ''Mitgliederbeitrag'' ''Jane Doe'' Maerz ''R1'')]"

text \<open>Batches with two transactions of one member, for March and April; in the last two, one of them pays the introduction course.\<close>

definition two_month_batch :: dataframe where
  "two_month_batch =
     [(0, candidate \<lparr>year = 2025, month = 3, day = 10\<rparr> ''ACME A'' 50 ''Mitgliederbeitrag'' ''Jane Doe'' Maerz ''R1''),
      (1, candidate \<lparr>year = 2025, month = 4, day = 10\<rparr> ''ACME B'' 50 ''Mitgliederbeitrag'' ''Jane Doe'' ''April'' ''R2'')]"

definition course_batch :: dataframe where
  "course_batch =
     [(0, candidate \<lparr>year = 2025, month = 3, day = 10\<rparr> ''ACME A'' 50 Einfuehrungskurs ''Jane Doe'' Maerz ''R1''),
      (1, candidate \<lparr>year = 2025, month = 4, day = 10\<rparr> ''ACME B'' 50 ''Mitgliederbeitrag'' ''Jane Doe'' ''April'' ''R2'')]"

definition course_last_batch :: dataframe where
  "course_last_batch =
     [(0, candidate \<lparr>year = 2025, month = 4, day = 10\<rparr> ''ACME B'' 50 ''Mitgliederbeitrag'' ''Jane Doe'' ''April'' ''R2''),
      (1, candidate \<lparr>year = 2025, month = 3, day = 10\<rparr> ''ACME A'' 50 Einfuehrungskurs ''Jane Doe'' Maerz ''R1'')]"

text \<open>
  A batch row for the member and month that the ledger holds, the same row with a blank
  before the member name, and a member whose January 2026 is recorded.
\<close>

definition paid_row :: row where
  "paid_row =
     candidate \<lparr>year = 2025, month = 3, day = 10\<rparr> ''A'' 50 ''Mitgliederbeitrag'' ''Jane Doe'' Maerz ''R1''"

definition untrimmed_row :: row where
  "untrimmed_row =
     candidate \<lparr>year = 2025, month = 3, day = 10\<rparr> ''A'' 50 ''Mitgliederbeitrag'' '' Jane Doe'' Maerz ''R1''"

definition jane_2026 :: member where
  "jane_2026 = jane\<lparr>contributions := [''2026'' \<mapsto> [''01'' \<mapsto>
      \<lparr>amount = Some 50, date = ''2026-01-12'', transaction_id = ''R0'', source = ''csv_import'',
       purpose = ''Mitgliederbeitrag'', details = ''A'', month_name = ''Januar'',
       zkb_reference = ''R0''\<rparr>]]\<rparr>"

section \<open>The tables and the lookup of a member\<close>

lemma dom_month_to_num: "dom month_to_num = set german_month_names"
  by (auto simp: month_to_num_def dom_def split: if_splits)

lemma find_member_id_None_iff:
  "find_member_id db n = None \<longleftrightarrow> n \<notin> set (map (\<lambda>(k, m). name m) db)"
proof (induction db)
  case Nil
  then show ?case by simp
next
  case (Cons p db)
  obtain k m where p: "p = (k, m)" by (cases p)
  show ?case
  proof (cases "name m = n")
    case True
    then show ?thesis by (simp add: p)
  next
    case False
    then have "n \<noteq> name m" by blast
    with False Cons.IH show ?thesis by (simp add: p)
  qed
qed

section \<open>Month defaults and outstanding payments\<close>


lemma add_smart_month_defaults_nth:
  "add_smart_month_defaults df = Some df' \<Longrightarrow>
     length df' = length df \<and>
     (\<forall>i < length df. fst (df' ! i) = fst (df ! i) \<and>
                       smart_month_default (snd (df ! i)) = Some (snd (df' ! i)))"
proof (induction df arbitrary: df')
  case Nil
  then show ?case by simp
next
  case (Cons p df)
  obtain idx r where p: "p = (idx, r)" by (cases p)
  from Cons.prems p obtain r' rest where
    r': "smart_month_default r = Some r'" and
    rest: "add_smart_month_defaults df = Some rest" and
    df': "df' = (idx, r') # rest"
    by (auto split: option.splits)
  from Cons.IH [OF rest] have ih: "length rest = length df"
    "\<And>i. i < length df \<Longrightarrow> fst (rest ! i) = fst (df ! i) \<and>
        smart_month_default (snd (df ! i)) = Some (snd (rest ! i))" by auto
  show ?case
  proof (intro conjI allI impI)
    show "length df' = length (p # df)" using ih(1) df' by simp
  next
    fix i assume "i < length (p # df)"
    then show "fst (df' ! i) = fst ((p # df) ! i)" using ih(2) df' p by (cases i) auto
  next
    fix i assume "i < length (p # df)"
    then show "smart_month_default (snd ((p # df) ! i)) = Some (snd (df' ! i))"
      using ih(2) df' p r' by (cases i) auto
  qed
qed




lemma outstanding_loop_eq:
  "outstanding_loop a paid mos acc =
     (fst acc @ map fmt_02d (filter (\<lambda>mo. paid (fmt_02d mo) = None) mos),
      snd acc + a * of_nat (length (filter (\<lambda>mo. paid (fmt_02d mo) = None) mos)))"
  by (induction mos arbitrary: acc) (auto simp: Let_def algebra_simps)

text \<open>
  For a member of class \<open>Aktiv\<close> (50.0 a month) or \<open>Passiv\<close> (25.0), the
  outstanding payments are, at every reading of the clock, the months from 01 up to the
  month of the clock that have no contribution record under the current year of the source
  (the constant \<open>current_year\<close>), and the total is the monthly amount times the number of
  these months.
\<close>

lemma outstanding_under_fixed_year:
  assumes "mitgliedsform m = Some ''Aktiv'' \<or> mitgliedsform m = Some ''Passiv''"
  shows "monthly_amount_of m = (if mitgliedsform m = Some ''Aktiv'' then 50 else 25) \<and>
         calculate_outstanding_payments now m =
           (map fmt_02d
              (filter (\<lambda>mo. get_or_empty (contributions m) current_year (fmt_02d mo) = None)
                 [1..<month now + 1]),
            monthly_amount_of m *
              of_nat (length
                (filter (\<lambda>mo. get_or_empty (contributions m) current_year (fmt_02d mo) = None)
                   [1..<month now + 1])))"
proof -
  from assms have a: "monthly_amount_of m = (if mitgliedsform m = Some ''Aktiv'' then 50 else 25)"
    by (auto simp: monthly_amount_of_def)
  then have "monthly_amount_of m \<noteq> 0" by auto
  then show ?thesis using a
    by (simp add: calculate_outstanding_payments_def Let_def outstanding_loop_eq)
qed

text \<open>The scenario of an active member without records, with the clock in March 2025.\<close>

lemma outstanding_under_fixed_year_example:
  "calculate_outstanding_payments \<lparr>year = 2025, month = 3, day = 15\<rparr> jane =
     ([''01'', ''02'', ''03''], 150)"
proof -
  have h: "mitgliedsform jane = Some ''Aktiv'' \<or> mitgliedsform jane = Some ''Passiv''"
    by (simp add: jane_def)
  have f: "filter (\<lambda>mo. get_or_empty (contributions jane) current_year (fmt_02d mo) = None)
                 [1..<3 + 1] = [1, 2, 3]"
    by code_simp
  have e: "map fmt_02d [1, 2, 3] = [''01'', ''02'', ''03'']"
    by code_simp
  have a: "monthly_amount_of jane = 50" by code_simp
  have mo: "month \<lparr>year = 2025, month = 3, day = 15\<rparr> = 3" by simp
  from outstanding_under_fixed_year [OF h, of "\<lparr>year = 2025, month = 3, day = 15\<rparr>"] show ?thesis
    unfolding mo f e a by simp
qed

section \<open>StatementParser and the conflict check\<close>

lemma smart_month_default_fields:
  "smart_month_default r = Some r' \<Longrightarrow> Datum r' = Datum r \<and> Amount r' = Amount r"
  by (auto simp: smart_month_default_def split: option.splits if_splits)

lemma smart_month_default_undated:
  "smart_month_default r = Some r' \<Longrightarrow> Datum r = None \<Longrightarrow> r' = r"
  by (auto simp: smart_month_default_def split: option.splits if_splits)

lemma auto_assign_row_fields:
  "Datum (auto_assign_row lw ms r) = Datum r \<and> Amount (auto_assign_row lw ms r) = Amount r
   \<and> Monat (auto_assign_row lw ms r) = Monat r"
  by (auto simp: auto_assign_row_def split: option.splits)

lemma add_smart_month_defaults_rel:
  "add_smart_month_defaults df = Some df' \<Longrightarrow>
   list_all2 (\<lambda>p q. fst q = fst p \<and> smart_month_default (snd p) = Some (snd q)) df df'"
  using add_smart_month_defaults_nth [of df df'] by (simp add: list_all2_conv_all_nth)

lemma filter_processed:
  "filter (\<lambda>(idx, r). valid_amount r)
     (map (\<lambda>(idx, c). (idx, processed_row tn td c)) (filter (\<lambda>(idx, c). is_credit c) df))
   = map (\<lambda>(idx, c). (idx, processed_row tn td c)) (filter (\<lambda>(idx, c). retained tn c) df)"
  by (induction df) (auto simp: retained_def valid_amount_def processed_row_def)

lemma parse_csv_file_rel:
  assumes "parse_csv_file tn td lw ms df = Some out"
  shows "list_all2 (\<lambda>p q. fst q = fst p \<and>
            (\<exists>r'. smart_month_default (processed_row tn td (snd p)) = Some r' \<and>
                  snd q = auto_assign_row lw ms r'))
           (filter (\<lambda>(idx, c). retained tn c) df) out"
proof -
  let ?pd = "map (\<lambda>(idx, c). (idx, processed_row tn td c)) (filter (\<lambda>(idx, c). retained tn c) df)"
  from assms obtain sm where sm: "add_smart_month_defaults ?pd = Some sm"
    and out: "out = auto_assign_members lw ms sm"
    by (auto simp: parse_csv_file_def Let_def filter_processed split: if_splits)
  from add_smart_month_defaults_rel [OF sm]
  have "list_all2 (\<lambda>p q. fst q = fst p \<and> smart_month_default (snd p) = Some (snd q)) ?pd sm" .
  then have "list_all2 (\<lambda>p q. fst q = fst p \<and>
            smart_month_default (processed_row tn td (snd p)) = Some (snd q))
           (filter (\<lambda>(idx, c). retained tn c) df) sm"
    by (simp add: list_all2_map1 case_prod_unfold)
  then have "list_all2 (\<lambda>p q. fst q = fst p \<and>
            (\<exists>r'. smart_month_default (processed_row tn td (snd p)) = Some r' \<and>
                  auto_assign_row lw ms (snd q) = auto_assign_row lw ms r'))
           (filter (\<lambda>(idx, c). retained tn c) df) sm"
    by (rule list_all2_mono) auto
  then show ?thesis unfolding out auto_assign_members_def
    by (simp add: list_all2_map2 case_prod_unfold)
qed

lemma parse_csv_file_labels:
  assumes "parse_csv_file tn td lw ms df = Some out"
  shows "map fst out = map fst (filter (\<lambda>(idx, c). retained tn c) df)"
proof -
  from parse_csv_file_rel [OF assms]
  have "list_all2 (\<lambda>p q. fst p = fst q) (filter (\<lambda>(idx, c). retained tn c) df) out"
    by (rule list_all2_mono) auto
  then have "list_all2 (=) (map fst (filter (\<lambda>(idx, c). retained tn c) df)) (map fst out)"
    by (simp add: list_all2_map1 list_all2_map2)
  then show ?thesis by (simp add: list_all2_eq [symmetric])
qed

lemma parse_csv_file_row:
  assumes "parse_csv_file tn td lw ms df = Some out" and "(idx, r) \<in> set out"
  shows "\<exists>c. (idx, c) \<in> set df \<and> retained tn c \<and> Datum r = coerce td (csv_Datum c)
            \<and> Amount r = coerce tn (csv_Gutschrift_CHF c)
            \<and> (Datum r = None \<longrightarrow> Monat r = Str [])"
proof -
  let ?xs = "filter (\<lambda>(idx, c). retained tn c) df"
  note rel2 = parse_csv_file_rel [OF assms(1)]
  from assms(2) obtain i where i: "i < length out" and oi: "out ! i = (idx, r)"
    by (auto simp: in_set_conv_nth)
  from rel2 have len: "length ?xs = length out" by (rule list_all2_lengthD)
  from list_all2_nthD2 [OF rel2 i] oi
  have rel: "fst (idx, r) = fst (?xs ! i) \<and>
            (\<exists>r'. smart_month_default (processed_row tn td (snd (?xs ! i))) = Some r' \<and>
                  snd (idx, r) = auto_assign_row lw ms r')" by simp
  define p where "p = ?xs ! i"
  have "?xs ! i \<in> set ?xs" using i len by (intro nth_mem) simp
  then have p: "p \<in> set ?xs" unfolding p_def .
  note rel = rel [folded p_def]
  obtain i c where pc: "p = (i, c)" by (cases p)
  from rel pc obtain r' where i: "i = idx"
    and r': "smart_month_default (processed_row tn td c) = Some r'"
    and r: "r = auto_assign_row lw ms r'" by auto
  from smart_month_default_fields [OF r'] auto_assign_row_fields [of lw ms r'] r
  have "Datum r = coerce td (csv_Datum c)" "Amount r = coerce tn (csv_Gutschrift_CHF c)"
    by (simp_all add: processed_row_def)
  moreover have "Datum r = None \<longrightarrow> Monat r = Str []"
  proof
    assume "Datum r = None"
    with smart_month_default_fields [OF r'] auto_assign_row_fields [of lw ms r'] r
    have "Datum (processed_row tn td c) = None" by simp
    from smart_month_default_undated [OF r' this] r auto_assign_row_fields [of lw ms r']
    show "Monat r = Str []" by (simp add: processed_row_def)
  qed
  moreover from p pc i have "(idx, c) \<in> set df" "retained tn c" by auto
  ultimately have "(idx, c) \<in> set df \<and> retained tn c \<and> Datum r = coerce td (csv_Datum c)
            \<and> Amount r = coerce tn (csv_Gutschrift_CHF c)
            \<and> (Datum r = None \<longrightarrow> Monat r = Str [])" by simp
  then show ?thesis by (rule exI)
qed

lemma retained_iff:
  "retained tn c \<longleftrightarrow>
     \<not> isna (csv_Gutschrift_CHF c) \<and> csv_Gutschrift_CHF c \<noteq> Str [] \<and>
     (\<exists>a. coerce tn (csv_Gutschrift_CHF c) = Some a \<and> 0 < a)"
  by (cases "coerce tn (csv_Gutschrift_CHF c)") (simp_all add: retained_def is_credit_def)

lemma parse_csv_file_excluded:
  assumes p: "parse_csv_file tn td lw ms df = Some out"
    and d: "distinct (map fst df)"
    and c: "(idx, c) \<in> set df"
    and bad: "isna (csv_Gutschrift_CHF c) \<or> csv_Gutschrift_CHF c = Str [] \<or>
               coerce tn (csv_Gutschrift_CHF c) = None \<or>
               (\<exists>a. coerce tn (csv_Gutschrift_CHF c) = Some a \<and> a \<le> 0)"
  shows "idx \<notin> fst ` set out"
proof
  assume "idx \<in> fst ` set out"
  then obtain r where r: "(idx, r) \<in> set out" by auto
  from parse_csv_file_row [OF p r] obtain c' where
    c': "(idx, c') \<in> set df" and ret: "retained tn c'" by (elim exE conjE)
  from d c c' have "c' = c" by (metis eq_key_imp_eq_value)
  with ret have "\<not> isna (csv_Gutschrift_CHF c)" "csv_Gutschrift_CHF c \<noteq> Str []"
    "\<exists>a. coerce tn (csv_Gutschrift_CHF c) = Some a \<and> 0 < a"
    by (simp_all add: retained_iff)
  with bad show False by fastforce
qed

text \<open>
  Claim C6. Every row of the parser's output has an amount above zero; the output rows are,
  in order, the input rows whose credit field is present, not empty and converts to an
  amount above zero; and, the index labels of the input being distinct, a row whose credit
  field is missing or empty, does not convert, or converts to an amount of at most zero is
  not in the output.
\<close>

theorem parser_amount_filter:
  assumes "parse_csv_file to_numeric to_datetime lower ms df = Some out"
  shows "(\<forall>(idx, r) \<in> set out. \<exists>a. Amount r = Some a \<and> 0 < a) \<and>
         map fst out = map fst (filter (\<lambda>(idx, c). retained to_numeric c) df) \<and>
         (distinct (map fst df) \<longrightarrow>
            (\<forall>(idx, c) \<in> set df.
               isna (csv_Gutschrift_CHF c) \<or> csv_Gutschrift_CHF c = Str [] \<or>
               coerce to_numeric (csv_Gutschrift_CHF c) = None \<or>
               (\<exists>a. coerce to_numeric (csv_Gutschrift_CHF c) = Some a \<and> a \<le> 0)
               \<longrightarrow> idx \<notin> fst ` set out))"
proof -
  have a: "\<forall>(idx, r) \<in> set out. \<exists>a. Amount r = Some a \<and> 0 < a"
  proof (clarify)
    fix idx r assume "(idx, r) \<in> set out"
    from parse_csv_file_row [OF assms this] obtain c where
      "retained to_numeric c" "Amount r = coerce to_numeric (csv_Gutschrift_CHF c)"
      by (elim exE conjE)
    then show "\<exists>a. Amount r = Some a \<and> 0 < a" by (simp add: retained_iff)
  qed
  have b: "map fst out = map fst (filter (\<lambda>(idx, c). retained to_numeric c) df)"
    by (rule parse_csv_file_labels [OF assms])
  have c: "distinct (map fst df) \<longrightarrow>
            (\<forall>(idx, c) \<in> set df.
               isna (csv_Gutschrift_CHF c) \<or> csv_Gutschrift_CHF c = Str [] \<or>
               coerce to_numeric (csv_Gutschrift_CHF c) = None \<or>
               (\<exists>a. coerce to_numeric (csv_Gutschrift_CHF c) = Some a \<and> a \<le> 0)
               \<longrightarrow> idx \<notin> fst ` set out)"
    using parse_csv_file_excluded [OF assms] by blast
  from a b c show ?thesis by (intro conjI)
qed

text \<open>
  Claim C2, as the code has it. Which rows the parser keeps depends on the credit amount
  only: the output rows are, in order, the input rows with a valid credit. The date of an
  output row is the result of the conversion of its date field in the day.month.year
  format, a missing date when the field does not parse; such a row is kept, and its month
  stays blank.
\<close>

theorem parser_keeps_undated_rows:
  assumes "parse_csv_file to_numeric to_datetime lower ms df = Some out"
  shows "map fst out = map fst (filter (\<lambda>(idx, c). retained to_numeric c) df) \<and>
         (\<forall>(idx, r) \<in> set out. \<exists>c. (idx, c) \<in> set df \<and> retained to_numeric c \<and>
              Datum r = coerce to_datetime (csv_Datum c) \<and>
              (Datum r = None \<longrightarrow> Monat r = Str []))"
proof (intro conjI)
  show "map fst out = map fst (filter (\<lambda>(idx, c). retained to_numeric c) df)"
    by (rule parse_csv_file_labels [OF assms])
next
  show "\<forall>(idx, r) \<in> set out. \<exists>c. (idx, c) \<in> set df \<and> retained to_numeric c \<and>
              Datum r = coerce to_datetime (csv_Datum c) \<and>
              (Datum r = None \<longrightarrow> Monat r = Str [])"
  proof (clarify)
    fix idx r assume "(idx, r) \<in> set out"
    from parse_csv_file_row [OF assms this] obtain c where
      "(idx, c) \<in> set df" "retained to_numeric c" "Datum r = coerce to_datetime (csv_Datum c)"
      "Datum r = None \<longrightarrow> Monat r = Str []" by (elim exE conjE)
    then have "(idx, c) \<in> set df \<and> retained to_numeric c \<and>
              Datum r = coerce to_datetime (csv_Datum c) \<and>
              (Datum r = None \<longrightarrow> Monat r = Str [])" by simp
    then show "\<exists>c. (idx, c) \<in> set df \<and> retained to_numeric c \<and>
              Datum r = coerce to_datetime (csv_Datum c) \<and>
              (Datum r = None \<longrightarrow> Monat r = Str [])" by (rule exI)
  qed
qed

lemma existing_conflict_skipped:
  "find_member_id db (strip (py_str (Mitglied r))) = None \<or>
   strip (py_str (Monat r)) \<notin> dom month_to_num \<Longrightarrow> existing_conflict db r = None"
  by (auto simp: existing_conflict_def Let_def split: option.splits)

lemma check_existing_entries_append:
  "check_existing_entries db (xs @ ys) = check_existing_entries db xs @ check_existing_entries db ys"
  by (induction xs) (auto split: option.splits)

lemma check_existing_entries_skipped:
  "\<forall>(idx, r) \<in> set df. find_member_id db (strip (py_str (Mitglied r))) = None \<or>
       strip (py_str (Monat r)) \<notin> dom month_to_num \<Longrightarrow> check_existing_entries db df = []"
proof (induction df)
  case Nil
  then show ?case by simp
next
  case (Cons p df)
  obtain idx r where p: "p = (idx, r)" by (cases p)
  with Cons.prems have "existing_conflict db r = None"
    by (intro existing_conflict_skipped) auto
  with Cons p show ?case by simp
qed

lemma parse_statement_rows:
  "parse_csv_file decimal_to_numeric dmy_to_datetime ascii_lower [] statement_rows = Some statement_out"
  by code_simp

lemma parse_undated_rows:
  "parse_csv_file decimal_to_numeric dmy_to_datetime ascii_lower [] undated_rows = Some undated_out"
  by code_simp

text \<open>Claim C6 on an export with one valid credit among five rows.\<close>

theorem parser_amount_filter_witness:
  "parse_csv_file decimal_to_numeric dmy_to_datetime ascii_lower [] statement_rows = Some statement_out \<and>
   map fst (filter (\<lambda>(idx, c). retained decimal_to_numeric c) statement_rows) = [0] \<and>
   map (\<lambda>(idx, r). Amount r) statement_out = [Some 50]"
proof -
  note t = parser_amount_filter [OF parse_statement_rows]
  from t have "map fst statement_out =
      map fst (filter (\<lambda>(idx, c). retained decimal_to_numeric c) statement_rows)"
    by (elim conjE)
  moreover have "map fst statement_out = [0]" by (simp add: statement_out_def)
  moreover have "map (\<lambda>(idx, r). Amount r) statement_out = [Some 50]"
    by (simp add: statement_out_def)
  ultimately show ?thesis using parse_statement_rows by simp
qed

text \<open>
  Claim C2 as stated fails: a row with a valid credit whose date field does not parse is in
  the parser's output, with a missing date.
\<close>

theorem parser_undated_row_counterexample:
  "dmy_to_datetime ''kein Datum'' = None \<and>
   parse_csv_file decimal_to_numeric dmy_to_datetime ascii_lower [] undated_rows =
      Some [(0, \<lparr>Datum = None,
                 Details = Str ''ACME Corp Payment, Jane Doe'', Amount = Some 50,
                 Zahlungszweck = Str ''Mitgliederbeitrag'', Mitglied = Str [], Monat = Str [],
                 Bemerkungen = Str ''Monatsbeitrag'', ZKB_Referenz = Str ''SL250829579C9948''\<rparr>)]"
  by code_simp

text \<open>Claim C2 as amended, on the export with the undated row.\<close>

theorem parser_keeps_undated_rows_witness:
  "parse_csv_file decimal_to_numeric dmy_to_datetime ascii_lower [] undated_rows = Some undated_out \<and>
   map fst (filter (\<lambda>(idx, c). retained decimal_to_numeric c) undated_rows) = [0] \<and>
   map (\<lambda>(idx, r). (Datum r, Monat r)) undated_out = [(None, Str [])]"
proof -
  note t = parser_keeps_undated_rows [OF parse_undated_rows]
  from t have "map fst undated_out =
      map fst (filter (\<lambda>(idx, c). retained decimal_to_numeric c) undated_rows)"
    by (elim conjE)
  moreover have "map fst undated_out = [0]" by (simp add: undated_out_def)
  moreover have "map (\<lambda>(idx, r). (Datum r, Monat r)) undated_out = [(None, Str [])]"
    by (simp add: undated_out_def)
  ultimately show ?thesis using parse_undated_rows by simp
qed

section \<open>Validation order and commit\<close>

lemma count_list_distinct: "distinct xs \<longleftrightarrow> (\<forall>x \<in> set xs. count_list xs x \<le> 1)"
proof (induction xs)
  case Nil
  then show ?case by simp
next
  case (Cons a xs)
  show ?case
  proof (cases "a \<in> set xs")
    case True
    then have "count_list xs a \<noteq> 0" by (simp add: count_list_0_iff)
    then have "0 < count_list xs a" by simp
    then have "\<not> count_list (a # xs) a \<le> 1" by simp
    with True show ?thesis by auto
  next
    case False
    then have "count_list xs a = 0" by (simp add: count_list_0_iff)
    with False Cons show ?thesis by auto
  qed
qed

lemma map_filter_total:
  "\<forall>x \<in> set xs. f x = Some (g x) \<Longrightarrow> List.map_filter f xs = map g xs"
  by (induction xs) (simp_all add: map_filter_simps)

lemma duplicates_empty_iff:
  "filter (\<lambda>(k, n). 1 < n) (map (\<lambda>k. (k, count_list ks k)) (sort (remdups ks))) = [] \<longleftrightarrow> distinct ks"
proof -
  have "filter (\<lambda>(k, n). 1 < n) (map (\<lambda>k. (k, count_list ks k)) (sort (remdups ks))) = []
        \<longleftrightarrow> (\<forall>k \<in> set ks. \<not> 1 < count_list ks k)"
    by (simp add: filter_empty_conv)
  also have "\<dots> \<longleftrightarrow> distinct ks"
    by (auto simp: count_list_distinct not_less)
  finally show ?thesis .
qed

lemma group_key_complete:
  assumes "\<not> isna (Mitglied r)" "\<not> isna (Monat r)" "\<not> isna (Zahlungszweck r)"
  shows "\<exists>a b c. group_key r = Some (a, b, c) \<and> row_triple r = (Str a, Str b, Str c)"
  using assms
  by (cases "Mitglied r"; cases "Monat r"; cases "Zahlungszweck r")
     (simp_all add: group_key_def row_triple_def)

lemma groupby_duplicates_iff:
  assumes "\<forall>(idx, r) \<in> set df. \<not> isna (Mitglied r) \<and> \<not> isna (Monat r) \<and> \<not> isna (Zahlungszweck r)"
  shows "filter (\<lambda>(k, n). 1 < n) (groupby_size df) = [] \<longleftrightarrow>
         distinct (map (\<lambda>(idx, r). row_triple r) df)"
proof -
  let ?g = "\<lambda>p. the (group_key (snd p))"
  let ?s = "\<lambda>(a, b, c). (Str a, Str b, Str c)"
  have tot: "\<forall>p \<in> set df. (\<lambda>(idx, r). group_key r) p = Some (?g p)"
  proof
    fix p assume p: "p \<in> set df"
    obtain idx r where pr: "p = (idx, r)" by (cases p)
    with p assms have "\<not> isna (Mitglied r)" "\<not> isna (Monat r)" "\<not> isna (Zahlungszweck r)" by auto
    from group_key_complete [OF this] pr show "(\<lambda>(idx, r). group_key r) p = Some (?g p)" by auto
  qed
  have ks: "List.map_filter (\<lambda>(idx, r). group_key r) df = map ?g df"
    by (rule map_filter_total [OF tot])
  have tr: "map (\<lambda>(idx, r). row_triple r) df = map ?s (map ?g df)"
  proof -
    have "\<forall>p \<in> set df. (\<lambda>(idx, r). row_triple r) p = ?s (?g p)"
    proof
      fix p assume p: "p \<in> set df"
      obtain idx r where pr: "p = (idx, r)" by (cases p)
      with p assms have "\<not> isna (Mitglied r)" "\<not> isna (Monat r)" "\<not> isna (Zahlungszweck r)" by auto
      from group_key_complete [OF this] pr show "(\<lambda>(idx, r). row_triple r) p = ?s (?g p)" by auto
    qed
    then show ?thesis by (simp add: comp_def)
  qed
  have inj: "inj ?s" by (auto simp: inj_on_def)
  have "distinct (map ?s (map ?g df)) \<longleftrightarrow> distinct (map ?g df)"
  proof -
    have "inj_on ?s (set (map ?g df))" by (rule inj_on_subset [OF inj subset_UNIV])
    then show ?thesis by (simp only: distinct_map [of ?s "map ?g df"] simp_thms)
  qed
  then show ?thesis
    unfolding groupby_size_def Let_def ks tr duplicates_empty_iff by simp
qed

lemma missing_isna: "\<not> missing c \<Longrightarrow> \<not> isna c"
  by (simp add: missing_def)

lemma if_chain_cong:
  assumes "\<not> a \<Longrightarrow> \<not> b \<Longrightarrow> \<not> c \<Longrightarrow> d = d'"
  shows "(if a then A else if b then B else if c then C else if d then D else E) =
         (if a then A else if b then B else if c then C else if d' then D else E)"
  using assms by auto

lemma if_chain_fst:
  "fst (if a then (False, A) else if b then (False, B) else if c then (False, C)
        else if d then (False, D) else if e then (False, E) else (True, F)) \<Longrightarrow>
   (if a then (False, A) else if b then (False, B) else if c then (False, C)
    else if d then (False, D) else if e then (False, E) else (True, F)) = (True, F)"
  by (cases a; cases b; cases c; cases d; cases e) simp_all

text \<open>
  Validation returns the first failure in the order: a row without purpose,
  a row without member, a row without month (each with the index labels of the rows that
  miss this field), two rows with the same member, month and purpose (with the groups of
  more than one row), a conflict with the ledger (with the conflicts); it succeeds only
  if none of them occurs. The transfer button commits only a batch that validates and
  leaves both stores unchanged otherwise.
\<close>

lemma validate_import_data_steps:
  "validate_import_data db df =
     (if \<exists>(idx, r) \<in> set df. missing (Zahlungszweck r)
      then (False, Fehlende_Zahlungszweck (map fst (filter (\<lambda>(idx, r). missing (Zahlungszweck r)) df)))
      else if \<exists>(idx, r) \<in> set df. missing (Mitglied r)
      then (False, Fehlende_Mitglied (map fst (filter (\<lambda>(idx, r). missing (Mitglied r)) df)))
      else if \<exists>(idx, r) \<in> set df. missing (Monat r)
      then (False, Fehlende_Monat (map fst (filter (\<lambda>(idx, r). missing (Monat r)) df)))
      else if \<not> distinct (map (\<lambda>(idx, r). row_triple r) df)
      then (False, Mehrfache_Transaktionen (filter (\<lambda>(k, n). 1 < n) (groupby_size df)))
      else if check_existing_entries db df \<noteq> []
      then (False, Existierende_Eintraege (check_existing_entries db df))
      else (True, Validierung_erfolgreich)) \<and>
   (fst (transfer_button stamp db ms df) \<longrightarrow>
      validate_import_data db df = (True, Validierung_erfolgreich)) \<and>
   (\<not> fst (validate_import_data db df) \<longrightarrow> transfer_button stamp db ms df = (False, db, ms))"
proof -
  let ?Z = "\<exists>(idx, r) \<in> set df. missing (Zahlungszweck r)"
  let ?M = "\<exists>(idx, r) \<in> set df. missing (Mitglied r)"
  let ?O = "\<exists>(idx, r) \<in> set df. missing (Monat r)"
  let ?D = "filter (\<lambda>(k, n). 1 < n) (groupby_size df)"
  let ?ok = "(True, Validierung_erfolgreich)"
  have e: "\<And>P. (filter (\<lambda>(idx, r). P r) df \<noteq> []) = (\<exists>(idx, r) \<in> set df. P r)"
    by (auto simp: filter_empty_conv)
  have v: "validate_import_data db df =
     (if ?Z
      then (False, Fehlende_Zahlungszweck (map fst (filter (\<lambda>(idx, r). missing (Zahlungszweck r)) df)))
      else if ?M
      then (False, Fehlende_Mitglied (map fst (filter (\<lambda>(idx, r). missing (Mitglied r)) df)))
      else if ?O
      then (False, Fehlende_Monat (map fst (filter (\<lambda>(idx, r). missing (Monat r)) df)))
      else if ?D \<noteq> []
      then (False, Mehrfache_Transaktionen ?D)
      else if check_existing_entries db df \<noteq> []
      then (False, Existierende_Eintraege (check_existing_entries db df))
      else ?ok)"
    unfolding validate_import_data_def Let_def e ..
  have d: "(?D \<noteq> []) = (\<not> distinct (map (\<lambda>(idx, r). row_triple r) df))"
    if "\<not> ?Z" "\<not> ?M" "\<not> ?O"
  proof -
    from that have "\<forall>(idx, r) \<in> set df.
        \<not> isna (Mitglied r) \<and> \<not> isna (Monat r) \<and> \<not> isna (Zahlungszweck r)"
      by (auto dest: missing_isna)
    from groupby_duplicates_iff [OF this] show ?thesis by simp
  qed
  have main: "validate_import_data db df =
     (if ?Z
      then (False, Fehlende_Zahlungszweck (map fst (filter (\<lambda>(idx, r). missing (Zahlungszweck r)) df)))
      else if ?M
      then (False, Fehlende_Mitglied (map fst (filter (\<lambda>(idx, r). missing (Mitglied r)) df)))
      else if ?O
      then (False, Fehlende_Monat (map fst (filter (\<lambda>(idx, r). missing (Monat r)) df)))
      else if \<not> distinct (map (\<lambda>(idx, r). row_triple r) df)
      then (False, Mehrfache_Transaktionen ?D)
      else if check_existing_entries db df \<noteq> []
      then (False, Existierende_Eintraege (check_existing_entries db df))
      else ?ok)"
    unfolding v by (rule if_chain_cong) (rule d)
  have fstv: "fst (validate_import_data db df) \<longrightarrow> validate_import_data db df = ?ok"
    unfolding v by (rule impI) (erule if_chain_fst)
  have b: "fst (transfer_button stamp db ms df) \<longrightarrow> validate_import_data db df = ?ok"
    using fstv by (simp add: transfer_button_def split: if_splits)
  have c: "\<not> fst (validate_import_data db df) \<longrightarrow>
      transfer_button stamp db ms df = (False, db, ms)"
    by (simp add: transfer_button_def)
  from main b c show ?thesis by (intro conjI)
qed






lemma name_set_contribution [simp]: "name (set_contribution yr mnum e m) = name m"
  by (simp add: set_contribution_def)

















section \<open>The mapping store under a commit\<close>

text \<open>
  A mapping is added under a key that is absent only, at the end of the store: the commit
  extends the store and changes the value of no key it holds.
\<close>

lemma add_member_mapping_extends:
  "\<exists>ext. snd (add_member_mapping ms dtls n) = ms @ ext"
  by (simp add: add_member_mapping_def Let_def)

lemma add_member_mapping_new_key:
  "strip dtls \<noteq> [] \<Longrightarrow> strip dtls \<notin> fst ` set ms \<Longrightarrow>
   add_member_mapping ms dtls n = (True, ms @ [(strip dtls, n)])"
  by (simp add: add_member_mapping_def Let_def)

lemma after_rows_extends:
  "after_rows n mid grp (db, ms) = (db', ms') \<Longrightarrow> \<exists>ext. ms' = ms @ ext"
  using add_member_mapping_extends [of ms]
  by (auto simp: after_rows_def Let_def)

lemma transfer_groups_extends:
  "transfer_groups stamp gs db ms = (res, ms') \<Longrightarrow> \<exists>ext. ms' = ms @ ext"
proof (induction gs arbitrary: db ms)
  case Nil
  then show ?case by simp
next
  case (Cons g gs)
  obtain n grp where g: "g = (n, grp)" by (cases g)
  show ?case
  proof (cases "find_member_id db n")
    case None
    with Cons.prems g have "transfer_groups stamp gs db ms = (res, ms')" by simp
    from Cons.IH [OF this] show ?thesis .
  next
    case (Some mid)
    show ?thesis
    proof (cases "process_rows stamp mid grp db")
      case None
      with Cons.prems g Some show ?thesis by simp
    next
      case (Some db1)
      obtain db2 ms2 where a: "after_rows n mid grp (db1, ms) = (db2, ms2)"
        by (cases "after_rows n mid grp (db1, ms)")
      with Cons.prems g \<open>find_member_id db n = Some mid\<close> Some
      have t: "transfer_groups stamp gs db2 ms2 = (res, ms')" by simp
      from after_rows_extends [OF a] obtain e1 where "ms2 = ms @ e1" ..
      moreover from Cons.IH [OF t] obtain e2 where "ms' = ms2 @ e2" ..
      ultimately have "ms' = ms @ (e1 @ e2)" by simp
      then show ?thesis ..
    qed
  qed
qed

lemma transfer_keeps_mappings:
  assumes "transfer_to_member_database stamp db ms df = (ok, db', ms')"
    and "k \<in> fst ` set ms"
  shows "map_of ms' k = map_of ms k"
proof -
  obtain res ms1 where tg: "transfer_groups stamp (groupby_Mitglied df) db ms = (res, ms1)"
    by (cases "transfer_groups stamp (groupby_Mitglied df) db ms")
  with assms(1) have "ms' = ms1"
    by (auto simp: transfer_to_member_database_def split: option.splits)
  with transfer_groups_extends [OF tg] obtain ext where "ms' = ms @ ext" by auto
  moreover from assms(2) obtain v where "map_of ms k = Some v"
    by (metis map_of_eq_None_iff not_None_eq)
  ultimately show ?thesis by (simp add: map_add_def)
qed

section \<open>What the conflict check reads\<close>

text \<open>
  The conflict check reports a conflict exactly when some row names a member of the
  directory and one of the twelve month labels, and the ledger holds a record of this
  member for this month under the year \<open>2025\<close>; the date of the row is not read.
\<close>

lemma month_to_num_nonempty: "month_to_num l = Some k \<Longrightarrow> k \<noteq> []"
  by (auto simp: month_to_num_def split: if_splits)

lemma existing_conflict_iff:
  "existing_conflict db r \<noteq> None \<longleftrightarrow>
     (\<exists>mid k. find_member_id db (strip (py_str (Mitglied r))) = Some mid \<and>
        month_to_num (strip (py_str (Monat r))) = Some k \<and>
        ledger_entry db mid ''2025'' k \<noteq> None)"
proof (cases "find_member_id db (strip (py_str (Mitglied r)))")
  case None
  then show ?thesis by (simp add: existing_conflict_def Let_def)
next
  case mid: (Some mid)
  show ?thesis
  proof (cases "month_to_num (strip (py_str (Monat r)))")
    case None
    with mid show ?thesis by (simp add: existing_conflict_def Let_def)
  next
    case (Some k)
    from month_to_num_nonempty [OF Some] have "k \<noteq> []" .
    with mid Some show ?thesis
      by (cases "map_of db mid") (simp_all add: existing_conflict_def Let_def ledger_entry_def)
  qed
qed

lemma check_existing_entries_iff:
  "check_existing_entries db df \<noteq> [] \<longleftrightarrow>
     (\<exists>(idx, r) \<in> set df. \<exists>mid k.
        find_member_id db (strip (py_str (Mitglied r))) = Some mid \<and>
        month_to_num (strip (py_str (Monat r))) = Some k \<and>
        ledger_entry db mid ''2025'' k \<noteq> None)"
proof (induction df)
  case Nil
  then show ?case by simp
next
  case (Cons p df)
  obtain idx r where p: "p = (idx, r)" by (cases p)
  have "check_existing_entries db (p # df) \<noteq> [] \<longleftrightarrow>
        existing_conflict db r \<noteq> None \<or> check_existing_entries db df \<noteq> []"
    unfolding p by (cases "existing_conflict db r") simp_all
  then show ?case unfolding Cons.IH existing_conflict_iff p by simp
qed

lemma existing_conflict_message:
  "existing_conflict db r = Some c \<Longrightarrow> c = conflict_message r"
  by (auto simp: existing_conflict_def conflict_message_def Let_def split: option.splits if_splits)

lemma existing_conflict_eq:
  "existing_conflict db r =
     (if \<exists>mid k. find_member_id db (strip (py_str (Mitglied r))) = Some mid \<and>
           month_to_num (strip (py_str (Monat r))) = Some k \<and>
           ledger_entry db mid ''2025'' k \<noteq> None
      then Some (conflict_message r) else None)"
proof (cases "existing_conflict db r")
  case None
  with existing_conflict_iff [of db r] show ?thesis by simp
next
  case (Some c)
  with existing_conflict_iff [of db r] existing_conflict_message [OF Some] show ?thesis by simp
qed

lemma check_existing_entries_eq:
  "check_existing_entries db df =
     map (\<lambda>(idx, r). conflict_message r)
       (filter (\<lambda>(idx, r). \<exists>mid k. find_member_id db (strip (py_str (Mitglied r))) = Some mid \<and>
           month_to_num (strip (py_str (Monat r))) = Some k \<and>
           ledger_entry db mid ''2025'' k \<noteq> None) df)"
proof (induction df)
  case Nil
  then show ?case by simp
next
  case (Cons p df)
  obtain idx r where p: "p = (idx, r)" by (cases p)
  show ?case unfolding p using Cons.IH
    by (simp add: existing_conflict_eq [of db r])
qed

lemma show_nat_2025: "show_nat 2025 = ''2025''"
  by code_simp

lemma check_existing_entries_dated:
  assumes "\<forall>(idx, r) \<in> set df. \<exists>d. Datum r = Some d \<and> year d = 2025"
  shows "check_existing_entries db df =
     map (\<lambda>(idx, r). conflict_message r)
       (filter (\<lambda>(idx, r). \<exists>mid k d. find_member_id db (strip (py_str (Mitglied r))) = Some mid \<and>
           month_to_num (strip (py_str (Monat r))) = Some k \<and> Datum r = Some d \<and>
           ledger_entry db mid (show_nat (year d)) k \<noteq> None) df)"
proof -
  have "filter (\<lambda>(idx, r). \<exists>mid k d. find_member_id db (strip (py_str (Mitglied r))) = Some mid \<and>
           month_to_num (strip (py_str (Monat r))) = Some k \<and> Datum r = Some d \<and>
           ledger_entry db mid (show_nat (year d)) k \<noteq> None) df =
        filter (\<lambda>(idx, r). \<exists>mid k. find_member_id db (strip (py_str (Mitglied r))) = Some mid \<and>
           month_to_num (strip (py_str (Monat r))) = Some k \<and>
           ledger_entry db mid ''2025'' k \<noteq> None) df"
  proof (rule filter_cong [OF refl])
    fix p assume p: "p \<in> set df"
    obtain idx r where pr: "p = (idx, r)" by (cases p)
    with p assms obtain d where d: "Datum r = Some d" "year d = 2025" by auto
    then have "show_nat (year d) = ''2025''" by (simp add: show_nat_2025)
    with d pr show "(case p of (idx, r) \<Rightarrow> \<exists>mid k d. find_member_id db (strip (py_str (Mitglied r))) = Some mid \<and>
           month_to_num (strip (py_str (Monat r))) = Some k \<and> Datum r = Some d \<and>
           ledger_entry db mid (show_nat (year d)) k \<noteq> None) =
        (case p of (idx, r) \<Rightarrow> \<exists>mid k. find_member_id db (strip (py_str (Mitglied r))) = Some mid \<and>
           month_to_num (strip (py_str (Monat r))) = Some k \<and>
           ledger_entry db mid ''2025'' k \<noteq> None)" by simp
  qed
  then show ?thesis by (simp only: check_existing_entries_eq)
qed

text \<open>
  Claim C7, as the code has it. Validation returns the first failure in the order: a row
  without purpose, a row without member, a row without month, each with the index labels of
  the rows that miss this one field (a row that misses another field only is not listed);
  two rows with the same member, month and purpose, with the groups of more than one row;
  a conflict with the ledger, with the conflicts; it succeeds only if none of them occurs.
  For a batch dated in 2025, the conflicts are the messages of the rows whose trimmed
  member name is the name of a member, whose trimmed month label is one of the twelve month
  names and for which the ledger holds a record of this member under the year of the
  row's date and this month. The transfer button commits only a batch that validates and
  leaves both stores unchanged otherwise.
\<close>

theorem validation_order:
  "validate_import_data db df =
     (if \<exists>(idx, r) \<in> set df. missing (Zahlungszweck r)
      then (False, Fehlende_Zahlungszweck (map fst (filter (\<lambda>(idx, r). missing (Zahlungszweck r)) df)))
      else if \<exists>(idx, r) \<in> set df. missing (Mitglied r)
      then (False, Fehlende_Mitglied (map fst (filter (\<lambda>(idx, r). missing (Mitglied r)) df)))
      else if \<exists>(idx, r) \<in> set df. missing (Monat r)
      then (False, Fehlende_Monat (map fst (filter (\<lambda>(idx, r). missing (Monat r)) df)))
      else if \<not> distinct (map (\<lambda>(idx, r). row_triple r) df)
      then (False, Mehrfache_Transaktionen (filter (\<lambda>(k, n). 1 < n) (groupby_size df)))
      else if check_existing_entries db df \<noteq> []
      then (False, Existierende_Eintraege (check_existing_entries db df))
      else (True, Validierung_erfolgreich)) \<and>
   ((\<forall>(idx, r) \<in> set df. \<exists>d. Datum r = Some d \<and> year d = 2025) \<longrightarrow>
      check_existing_entries db df =
        map (\<lambda>(idx, r). conflict_message r)
          (filter (\<lambda>(idx, r). \<exists>mid k d.
               find_member_id db (strip (py_str (Mitglied r))) = Some mid \<and>
               month_to_num (strip (py_str (Monat r))) = Some k \<and> Datum r = Some d \<and>
               ledger_entry db mid (show_nat (year d)) k \<noteq> None) df)) \<and>
   (fst (transfer_button stamp db ms df) \<longrightarrow>
      validate_import_data db df = (True, Validierung_erfolgreich)) \<and>
   (\<not> fst (validate_import_data db df) \<longrightarrow> transfer_button stamp db ms df = (False, db, ms))"
proof -
  note v = validate_import_data_steps [of db df stamp ms]
  note a = v [THEN conjunct1]
  note c = v [THEN conjunct2, THEN conjunct1]
  note d = v [THEN conjunct2, THEN conjunct2]
  have b: "(\<forall>(idx, r) \<in> set df. \<exists>d. Datum r = Some d \<and> year d = 2025) \<longrightarrow>
      check_existing_entries db df =
        map (\<lambda>(idx, r). conflict_message r)
          (filter (\<lambda>(idx, r). \<exists>mid k d.
               find_member_id db (strip (py_str (Mitglied r))) = Some mid \<and>
               month_to_num (strip (py_str (Monat r))) = Some k \<and> Datum r = Some d \<and>
               ledger_entry db mid (show_nat (year d)) k \<noteq> None) df)"
  proof
    assume h: "\<forall>(idx, r) \<in> set df. \<exists>d. Datum r = Some d \<and> year d = 2025"
    from check_existing_entries_dated [OF h] show "check_existing_entries db df =
        map (\<lambda>(idx, r). conflict_message r)
          (filter (\<lambda>(idx, r). \<exists>mid k d.
               find_member_id db (strip (py_str (Mitglied r))) = Some mid \<and>
               month_to_num (strip (py_str (Monat r))) = Some k \<and> Datum r = Some d \<and>
               ledger_entry db mid (show_nat (year d)) k \<noteq> None) df)" .
  qed
  from a b c d show ?thesis by (intro conjI)
qed

text \<open>
  Claim C9, as the code has it. Rows whose member name, after trimming, is the name of no
  member of the directory, or whose month label, after trimming, is none of the twelve
  German month names, contribute no conflict: a batch of such rows has no conflicts
  whatever the ledger holds, and inserting such rows into a batch does not change its
  conflicts.
\<close>

theorem conflict_check_skips_rows:
  assumes "\<forall>(idx, r) \<in> set df.
             strip (py_str (Mitglied r)) \<notin> set (map (\<lambda>(k, m). name m) db) \<or>
             strip (py_str (Monat r)) \<notin> set german_month_names"
  shows "check_existing_entries db df = [] \<and>
         (\<forall>xs ys. check_existing_entries db (xs @ df @ ys) = check_existing_entries db (xs @ ys))"
proof -
  from assms have "\<forall>(idx, r) \<in> set df.
      find_member_id db (strip (py_str (Mitglied r))) = None \<or>
      strip (py_str (Monat r)) \<notin> dom month_to_num"
    by (simp only: find_member_id_None_iff dom_month_to_num)
  from check_existing_entries_skipped [OF this] show ?thesis
    by (simp add: check_existing_entries_append)
qed

section \<open>The introduction-course flag\<close>

text \<open>Setting the flag of a member whose flag is set leaves the member database as it is.\<close>

lemma upd_member_id:
  "(\<And>m. (mid, m) \<in> set db \<Longrightarrow> f m = m) \<Longrightarrow> upd_member mid f db = db"
  by (induction db) (auto simp: upd_member_def)

lemma course_flag_idempotent:
  assumes "distinct (map fst db)" "map_of db mid = Some m" "einfuehrungskurs m = Some True"
  shows "upd_member mid (\<lambda>m. m\<lparr>einfuehrungskurs := Some True\<rparr>) db = db"
proof (rule upd_member_id)
  fix m' assume "(mid, m') \<in> set db"
  with assms(1) have "map_of db mid = Some m'" by simp
  with assms(2,3) show "m'\<lparr>einfuehrungskurs := Some True\<rparr> = m'" by simp
qed

section \<open>Closed instances of validation and commit\<close>

lemma mixed_batch_row0: "missing (Mitglied (snd (mixed_batch ! 0)))"
  by code_simp

lemma mixed_batch_row1: "missing (Zahlungszweck (snd (mixed_batch ! 1)))"
  by code_simp

lemma mixed_batch_validation:
  "validate_import_data [(''1'', jane)] mixed_batch = (False, Fehlende_Zahlungszweck [1])"
  by code_simp

text \<open>
  Claim C7 as stated fails: in a batch whose row 0 has no member and whose row 1 has no
  purpose, both rows fail the completeness check, and validation returns row 1 only.
\<close>

theorem validation_lists_first_field_counterexample:
  "missing (Mitglied (snd (mixed_batch ! 0))) \<and>
   missing (Zahlungszweck (snd (mixed_batch ! 1))) \<and>
   validate_import_data [(''1'', jane)] mixed_batch = (False, Fehlende_Zahlungszweck [1])"
  using mixed_batch_row0 mixed_batch_row1 mixed_batch_validation by (intro conjI)

text \<open>
  Claim C7 as amended, on that batch, and on a batch dated March 2025 for a member whose
  March 2025 is recorded.
\<close>

theorem validation_order_witness:
  "validate_import_data [(''1'', jane)] mixed_batch = (False, Fehlende_Zahlungszweck [1]) \<and>
   check_existing_entries [(''1'', jane_paid)] [(0, paid_row)] = [conflict_message paid_row]"
proof -
  note t = validation_order [where db = "[(''1'', jane)]" and df = mixed_batch]
  note v = t [THEN conjunct1]
  have z: "\<exists>(idx, r) \<in> set mixed_batch. missing (Zahlungszweck r)"
    by code_simp
  have l: "map fst (filter (\<lambda>(idx, r). missing (Zahlungszweck r)) mixed_batch) = [1]"
    by code_simp
  have first: "validate_import_data [(''1'', jane)] mixed_batch = (False, Fehlende_Zahlungszweck [1])"
    unfolding v by (simp only: z if_True l)
  note u = validation_order [where db = "[(''1'', jane_paid)]" and df = "[(0, paid_row)]",
      THEN conjunct2, THEN conjunct1]
  have dated: "\<forall>(idx, r) \<in> set [(0, paid_row)]. \<exists>d. Datum r = Some d \<and> year d = 2025"
    by (simp add: paid_row_def candidate_def)
  have f: "find_member_id [(''1'', jane_paid)] (strip (py_str (Mitglied paid_row))) = Some ''1''"
    by code_simp
  have k: "month_to_num (strip (py_str (Monat paid_row))) = Some ''03''"
    by code_simp
  have d: "Datum paid_row = Some \<lparr>year = 2025, month = 3, day = 10\<rparr>"
    by (simp add: paid_row_def candidate_def)
  have e: "ledger_entry [(''1'', jane_paid)] ''1''
             (show_nat (year \<lparr>year = 2025, month = 3, day = 10\<rparr>)) ''03'' \<noteq> None"
    by code_simp
  from f k d e have p: "\<exists>mid k d.
       find_member_id [(''1'', jane_paid)] (strip (py_str (Mitglied paid_row))) = Some mid \<and>
       month_to_num (strip (py_str (Monat paid_row))) = Some k \<and> Datum paid_row = Some d \<and>
       ledger_entry [(''1'', jane_paid)] mid (show_nat (year d)) k \<noteq> None"
    by (intro exI conjI)
  from u [THEN mp, OF dated] p
  have "check_existing_entries [(''1'', jane_paid)] [(0, paid_row)] = [conflict_message paid_row]"
    by (simp del: find_member_id.simps)
  with first show ?thesis by (intro conjI)
qed

lemma outstanding_2026_ledger:
  "get_or_empty (contributions jane_2026) ''2026'' ''01'' \<noteq> None"
  by code_simp

lemma outstanding_2026_result:
  "calculate_outstanding_payments \<lparr>year = 2026, month = 3, day = 15\<rparr> jane_2026 =
     ([''01'', ''02'', ''03''], 150)"
  by code_simp

text \<open>
  Claim C8, where the code departs from it. The year under which the records are read is
  the fixed \<open>2025\<close>, not the year of the clock. With the clock on 15 March 2026 and a
  record for January 2026, January is reported outstanding with February and March.
\<close>

theorem outstanding_reads_fixed_year:
  "get_or_empty (contributions jane_2026) ''2026'' ''01'' \<noteq> None \<and>
   calculate_outstanding_payments \<lparr>year = 2026, month = 3, day = 15\<rparr> jane_2026 =
     ([''01'', ''02'', ''03''], 150)"
  using outstanding_2026_ledger outstanding_2026_result by (intro conjI)

lemma untrimmed_lookup: "find_member_id [(''1'', jane_paid)] '' Jane Doe'' = None"
  by code_simp

lemma untrimmed_conflict:
  "check_existing_entries [(''1'', jane_paid)] [(0, untrimmed_row)] =
     [''Jane Doe - '' @ Maerz @ '' (Mitgliederbeitrag)'']"
  by code_simp

text \<open>
  Claim C9 as stated fails: a row whose member name, with a blank before it, is the name of
  no member as it is written contributes a conflict, since the name is trimmed first.
\<close>

theorem untrimmed_member_conflict_counterexample:
  "Mitglied untrimmed_row = Str '' Jane Doe'' \<and>
   find_member_id [(''1'', jane_paid)] '' Jane Doe'' = None \<and>
   check_existing_entries [(''1'', jane_paid)] [(0, untrimmed_row)] =
     [''Jane Doe - '' @ Maerz @ '' (Mitgliederbeitrag)'']"
  using untrimmed_lookup untrimmed_conflict
  by (intro conjI) (simp_all add: untrimmed_row_def candidate_def)

lemma ball_two: "P a \<Longrightarrow> Q b \<Longrightarrow> \<forall>(idx, r) \<in> set [(i, a), (j, b)]. P r \<or> Q r"
  by simp

lemma skipped_batch_rows:
  "\<forall>(idx, r) \<in> set skipped_batch.
       strip (py_str (Mitglied r)) \<notin> set (map (\<lambda>(k, m). name m) [(''1'', jane_paid)]) \<or>
       strip (py_str (Monat r)) \<notin> set german_month_names"
proof -
  have a: "find_member_id [(''1'', jane_paid)] (strip (py_str (Mitglied unknown_member_row))) = None"
    by code_simp
  have b: "month_to_num (strip (py_str (Monat unknown_month_row))) = None"
    by code_simp
  from a have a': "strip (py_str (Mitglied unknown_member_row))
      \<notin> set (map (\<lambda>(k, m). name m) [(''1'', jane_paid)])"
    by (rule find_member_id_None_iff [THEN iffD1])
  from b have b': "strip (py_str (Monat unknown_month_row)) \<notin> set german_month_names"
    unfolding dom_month_to_num [symmetric] by (simp add: domIff)
  show ?thesis unfolding skipped_batch_def
    by (rule ball_two [where P = "\<lambda>r. strip (py_str (Mitglied r))
            \<notin> set (map (\<lambda>(k, m). name m) [(''1'', jane_paid)])"
          and Q = "\<lambda>r. strip (py_str (Monat r)) \<notin> set german_month_names", OF a' b'])
qed

text \<open>Claim C9 as amended, on a ledger that holds March 2025 for the member named in the batch.\<close>

theorem conflict_check_skips_rows_witness:
  "check_existing_entries [(''1'', jane_paid)] skipped_batch = []"
  using conflict_check_skips_rows [OF skipped_batch_rows] by (elim conjE)


lemma batch_2024_ledger:
  "ledger_entry [(''1'', jane_2024)] ''1'' ''2024'' ''03'' = Some old_entry"
  by code_simp

lemma batch_2024_check:
  "check_existing_entries [(''1'', jane_2024)] batch_2024 = []"
  by code_simp

lemma batch_2024_valid:
  "validate_import_data [(''1'', jane_2024)] batch_2024 = (True, Validierung_erfolgreich)"
  by code_simp

lemma batch_2024_overwrites:
  "map_option amount
     (ledger_entry (fst (snd (transfer_to_member_database fixed_stamp [(''1'', jane_2024)] [] batch_2024)))
        ''1'' ''2024'' ''03'') = Some (Some 50)"
  by code_simp

text \<open>
  Claim C1, where the code departs from it. The conflict check reads the ledger under the
  fixed year \<open>2025\<close>, not under the year of the transaction's date. With a record for
  March 2024 in the ledger and a transaction of the same member dated March 2024, the check
  finds no conflict, validation succeeds, and the commit replaces the record.
\<close>

theorem conflict_check_fixed_year:
  "ledger_entry [(''1'', jane_2024)] ''1'' ''2024'' ''03'' = Some old_entry \<and>
   check_existing_entries [(''1'', jane_2024)] batch_2024 = [] \<and>
   validate_import_data [(''1'', jane_2024)] batch_2024 = (True, Validierung_erfolgreich) \<and>
   map_option amount
     (ledger_entry (fst (snd (transfer_to_member_database fixed_stamp [(''1'', jane_2024)] [] batch_2024)))
        ''1'' ''2024'' ''03'') = Some (Some 50)"
  using batch_2024_ledger batch_2024_check batch_2024_valid batch_2024_overwrites
  by (intro conjI)

lemma two_month_batch_valid:
  "validate_import_data [(''1'', jane)] two_month_batch = (True, Validierung_erfolgreich)"
  by code_simp

lemma two_month_batch_mappings:
  "snd (snd (transfer_to_member_database fixed_stamp [(''1'', jane)] [] two_month_batch)) =
     [(''ACME B'', ''Jane Doe'')]"
  by code_simp

lemma two_month_batch_committed:
  "fst (transfer_to_member_database fixed_stamp [(''1'', jane)] [] two_month_batch)"
  by code_simp

text \<open>
  Claim C3, where the code departs from it. The mapping is added after the loop over the
  rows of a member, from the row the loop ended on. A valid batch with two transactions of
  one member and an empty mapping store is committed, and the store then holds the details
  of the second transaction only.
\<close>

theorem mapping_added_for_last_row_only:
  "validate_import_data [(''1'', jane)] two_month_batch = (True, Validierung_erfolgreich) \<and>
   fst (transfer_to_member_database fixed_stamp [(''1'', jane)] [] two_month_batch) \<and>
   snd (snd (transfer_to_member_database fixed_stamp [(''1'', jane)] [] two_month_batch)) =
     [(''ACME B'', ''Jane Doe'')]"
  using two_month_batch_valid two_month_batch_committed two_month_batch_mappings
  by (intro conjI)

lemma course_batch_valid:
  "validate_import_data [(''1'', jane)] course_batch = (True, Validierung_erfolgreich)"
  by code_simp

lemma course_batch_committed:
  "fst (transfer_to_member_database fixed_stamp [(''1'', jane)] [] course_batch)"
  by code_simp

lemma course_batch_flag:
  "map_option einfuehrungskurs
     (map_of (fst (snd (transfer_to_member_database fixed_stamp [(''1'', jane)] [] course_batch))) ''1'')
     = Some (Some False)"
  by code_simp

lemma course_last_batch_flag:
  "map_option einfuehrungskurs
     (map_of (fst (snd (transfer_to_member_database fixed_stamp [(''1'', jane)] [] course_last_batch))) ''1'')
     = Some (Some True)"
  by code_simp

text \<open>
  Claim C4, where the code departs from it. The flag is set after the loop over the rows of
  a member, from the purpose of the row the loop ended on. A valid batch whose first
  transaction pays the introduction course and whose second pays the fee is committed and
  leaves the flag false; with the two rows in the other order the flag is set.
\<close>

theorem course_flag_from_last_row_only:
  "validate_import_data [(''1'', jane)] course_batch = (True, Validierung_erfolgreich) \<and>
   fst (transfer_to_member_database fixed_stamp [(''1'', jane)] [] course_batch) \<and>
   map_option einfuehrungskurs
     (map_of (fst (snd (transfer_to_member_database fixed_stamp [(''1'', jane)] [] course_batch))) ''1'')
     = Some (Some False) \<and>
   map_option einfuehrungskurs
     (map_of (fst (snd (transfer_to_member_database fixed_stamp [(''1'', jane)] [] course_last_batch))) ''1'')
     = Some (Some True)"
  using course_batch_valid course_batch_committed course_batch_flag course_last_batch_flag
  by (intro conjI)

end
